theory Spec2Isabelle
  imports Complex_Main "HOL-Library.Char_ord" "HOL-Library.List_Lexorder"
begin

section \<open>The listing table\<close>

text \<open>
  The dashboard of \<^verbatim>\<open>app.py\<close> reads one table of rental listings and recomputes three
  figures and three headline numbers from it whenever a dropdown changes. A row of the
  table is a record with the columns the program reads. A cell that pandas holds as NaN is
  \<open>None\<close>: the program itself drops NaN from \<open>neighbourhood_group\<close>, \<open>room_type\<close>,
  \<open>latitude\<close> and \<open>longitude\<close>, so these four columns are optional.

  Numbers: a price or a coordinate is a float64 cell of the table, here the rational
  number that the cell denotes, so that comparing two of them is exact. Whatever pandas
  computes from such cells in floating point (a mean, a median, a quantile) is not
  computed here: these routines are parameters of the model, see \<open>pandas\<close> below.
  The count of nights is an integer cell.
\<close>

record listing =
  price :: rat
  neighbourhood_group :: "string option"
  room_type :: "string option"
  minimum_nights :: int
  number_of_reviews :: nat
  latitude :: "rat option"
  longitude :: "rat option"
  neighbourhood :: string

type_synonym frame = "listing list"

text \<open>
  A float64 result: a finite value (the rational it denotes), negative zero, an infinity
  or NaN.
\<close>

datatype float64 = F_finite rat | F_neg_zero | F_inf | F_neg_inf | F_nan

text \<open>
  The numerical routines of pandas that the program calls on a column: \<^verbatim>\<open>Series.mean()\<close>,
  \<^verbatim>\<open>median\<close> and \<^verbatim>\<open>Series.quantile(q)\<close>. Their results depend on the rounding and on
  the order of the additions inside the library, which the program does not fix, so the
  model takes them as they are given and assumes nothing about them.
\<close>

record pandas =
  series_mean :: "rat list \<Rightarrow> float64"
  series_median :: "rat list \<Rightarrow> float64"
  series_quantile :: "rat list \<Rightarrow> rat \<Rightarrow> float64"

text \<open>\<^verbatim>\<open>PRICE_AXIS_MAX = 600\<close>\<close>

definition PRICE_AXIS_MAX :: rat where
  "PRICE_AXIS_MAX = 600"

text \<open>\<^verbatim>\<open>df = pd.read_csv(DATA_PATH); df = df[df["price"] > 0].copy()\<close>: the argument is the
  table as read from the file.\<close>

definition load_df :: "frame \<Rightarrow> frame" where
  "load_df csv = filter (\<lambda>r. price r > 0) csv"

text \<open>\<^verbatim>\<open>sorted(df[col].dropna().unique().tolist())\<close>\<close>

definition sorted_unique :: "string option list \<Rightarrow> string list" where
  "sorted_unique col = sort (remdups (List.map_filter id col))"

text \<open>
  The module's global names that the callback reads: the table, the two sorted lists of
  column values, and the imported library \<^verbatim>\<open>pd\<close>. They are bound once, when the module is
  loaded.
\<close>

record app =
  df :: frame
  neigh_groups :: "string list"
  room_types :: "string list"
  pd :: pandas

definition startup :: "pandas \<Rightarrow> frame \<Rightarrow> app" where
  "startup lib csv =
     (let d = load_df csv
      in \<lparr>df = d,
          neigh_groups = sorted_unique (map neighbourhood_group d),
          room_types = sorted_unique (map room_type d),
          pd = lib\<rparr>)"

text \<open>The colour table \<^verbatim>\<open>borough_colors\<close>, a dictionary, as an association list.\<close>

definition borough_colors :: "(string \<times> string) list" where
  "borough_colors =
     [(''Manhattan'', ''#FF5A5F''), (''Brooklyn'', ''#ff9286''), (''Queens'', ''#a3cef1''),
      (''Bronx'', ''#767676''), (''Staten Island'', ''#111111'')]"

subsection \<open>The values of the three dropdowns\<close>

text \<open>
  The region and room-type dropdowns deliver a string, \<^verbatim>\<open>"All"\<close> or a value of the column.
  The price-ceiling dropdown delivers the string \<^verbatim>\<open>"none"\<close> or a number
  (\<^verbatim>\<open>price_ceiling_options\<close>); the program turns the number into a float before comparing.
\<close>

datatype ceiling = Ceil_none | Ceil_num rat

definition neigh_options :: "app \<Rightarrow> string list" where
  "neigh_options s = ''All'' # neigh_groups s"

definition room_type_options :: "app \<Rightarrow> string list" where
  "room_type_options s = ''All'' # room_types s"

definition price_ceiling_options :: "(string \<times> ceiling) list" where
  "price_ceiling_options =
     [(''No limit'', Ceil_none), (''$200'', Ceil_num 200), (''$400'', Ceil_num 400),
      (''$600'', Ceil_num 600), (''$800'', Ceil_num 800), (''$1000'', Ceil_num 1000)]"

text \<open>The \<^verbatim>\<open>value=\<close> argument of each \<^verbatim>\<open>dcc.Dropdown\<close> in \<^verbatim>\<open>app.layout\<close>: what the callback
  receives at the first load.\<close>

definition global_neigh_group_value :: string where
  "global_neigh_group_value = ''All''"

definition global_room_type_value :: string where
  "global_room_type_value = ''All''"

definition global_price_ceiling_value :: ceiling where
  "global_price_ceiling_value = Ceil_num 800"

section \<open>Filtering\<close>

text \<open>
  The first lines of \<^verbatim>\<open>update_all\<close>: three selections applied one after another to a copy of
  \<^verbatim>\<open>df\<close>. A comparison of a NaN cell with a string is false in pandas, so a row without a
  region never passes a region filter.
\<close>

definition by_neigh_group :: "string \<Rightarrow> frame \<Rightarrow> frame" where
  "by_neigh_group neigh_group data =
     (if neigh_group \<noteq> ''All''
      then filter (\<lambda>r. neighbourhood_group r = Some neigh_group) data else data)"

definition by_room_type :: "string \<Rightarrow> frame \<Rightarrow> frame" where
  "by_room_type rt data =
     (if rt \<noteq> ''All'' then filter (\<lambda>r. room_type r = Some rt) data else data)"

definition by_price_ceiling :: "ceiling \<Rightarrow> frame \<Rightarrow> frame" where
  "by_price_ceiling price_ceiling data =
     (case price_ceiling of
        Ceil_none \<Rightarrow> data
      | Ceil_num c \<Rightarrow> filter (\<lambda>r. price r \<le> c) data)"

definition filtered :: "frame \<Rightarrow> string \<Rightarrow> string \<Rightarrow> ceiling \<Rightarrow> frame" where
  "filtered d neigh_group rt price_ceiling =
     by_price_ceiling price_ceiling (by_room_type rt (by_neigh_group neigh_group d))"

text \<open>The three conditions as predicates on a row, as the specification words them.\<close>

definition region_ok :: "string \<Rightarrow> listing \<Rightarrow> bool" where
  "region_ok neigh_group r =
     (neigh_group = ''All'' \<or> neighbourhood_group r = Some neigh_group)"

definition room_ok :: "string \<Rightarrow> listing \<Rightarrow> bool" where
  "room_ok rt r = (rt = ''All'' \<or> room_type r = Some rt)"

definition ceiling_ok :: "ceiling \<Rightarrow> listing \<Rightarrow> bool" where
  "ceiling_ok price_ceiling r =
     (case price_ceiling of Ceil_none \<Rightarrow> True | Ceil_num c \<Rightarrow> price r \<le> c)"

section \<open>Numbers as text\<close>

text \<open>
  The three format specifications of the f-strings: \<^verbatim>\<open>{:,}\<close> on an integer,
  \<^verbatim>\<open>{:,.0f}\<close> and \<^verbatim>\<open>{:.1f}\<close> on a float. For a finite float Python rounds the exact
  value of the float to the requested number of decimals, ties to the even neighbour, and
  keeps the sign of a negative value; the other floats are written \<^verbatim>\<open>inf\<close>, \<^verbatim>\<open>-inf\<close>
  and \<^verbatim>\<open>nan\<close>.
\<close>

definition digit_char :: "nat \<Rightarrow> char" where
  "digit_char d = ''0123456789'' ! (d mod 10)"

fun dec_digits :: "nat \<Rightarrow> string" where
  "dec_digits n =
     (if n < 10 then [digit_char n] else dec_digits (n div 10) @ [digit_char (n mod 10)])"

declare dec_digits.simps [simp del]

fun group3 :: "string \<Rightarrow> string" where
  "group3 (a # b # c # d # rest) = a # b # c # CHR '','' # group3 (d # rest)"
| "group3 ds = ds"

text \<open>\<^verbatim>\<open>f"{n:,}"\<close>: a comma before every block of three digits, counted from the right.\<close>

definition fmt_commas :: "nat \<Rightarrow> string" where
  "fmt_commas n = rev (group3 (rev (dec_digits n)))"

definition round_half_even :: "rat \<Rightarrow> int" where
  "round_half_even x =
     (let f = \<lfloor>x\<rfloor>; d = x - of_int f
      in if d < 1 / 2 then f
         else if 1 / 2 < d then f + 1
         else if even f then f else f + 1)"

definition sign_text :: "rat \<Rightarrow> string" where
  "sign_text x = (if x < 0 then ''-'' else '''')"

text \<open>\<^verbatim>\<open>f"{x:,.0f}"\<close> on a finite value\<close>

definition fmt_f0 :: "rat \<Rightarrow> string" where
  "fmt_f0 x = sign_text x @ fmt_commas (nat (round_half_even \<bar>x\<bar>))"

text \<open>\<^verbatim>\<open>f"{x:.1f}"\<close> on a finite value\<close>

definition fmt_f1 :: "rat \<Rightarrow> string" where
  "fmt_f1 x =
     (let m = nat (round_half_even (\<bar>x\<bar> * 10))
      in sign_text x @ dec_digits (m div 10) @ ''.'' @ [digit_char (m mod 10)])"

text \<open>The two float formats on any float64.\<close>

definition fmt_float0 :: "float64 \<Rightarrow> string" where
  "fmt_float0 v =
     (case v of
        F_finite x \<Rightarrow> fmt_f0 x
      | F_neg_zero \<Rightarrow> ''-0''
      | F_inf \<Rightarrow> ''inf''
      | F_neg_inf \<Rightarrow> ''-inf''
      | F_nan \<Rightarrow> ''nan'')"

definition fmt_float1 :: "float64 \<Rightarrow> string" where
  "fmt_float1 v =
     (case v of
        F_finite x \<Rightarrow> fmt_f1 x
      | F_neg_zero \<Rightarrow> ''-0.0''
      | F_inf \<Rightarrow> ''inf''
      | F_neg_inf \<Rightarrow> ''-inf''
      | F_nan \<Rightarrow> ''nan'')"

section \<open>Aggregates\<close>

text \<open>
  The five statistics of one region's prices. The smallest and the largest price are
  cells of the column; the quartiles and the median come from the library. A group of a
  \<^verbatim>\<open>groupby\<close> is never empty.
\<close>

record price_stats =
  min_price :: rat
  q1_price :: float64
  median_price :: float64
  q3_price :: float64
  max_price :: rat

definition agg_price :: "pandas \<Rightarrow> rat list \<Rightarrow> price_stats option" where
  "agg_price lib xs =
     (case sort xs of
        [] \<Rightarrow> None
      | v # vs \<Rightarrow>
          Some \<lparr>min_price = v, q1_price = series_quantile lib xs (1 / 4),
                median_price = series_median lib xs,
                q3_price = series_quantile lib xs (3 / 4),
                max_price = last (v # vs)\<rparr>)"

text \<open>\<^verbatim>\<open>data.groupby("neighbourhood_group")["price"].agg(...).reset_index()\<close>: one row for
  every region that occurs, in sorted order; rows without a region form no group.\<close>

definition stats :: "pandas \<Rightarrow> frame \<Rightarrow> (string \<times> price_stats option) list" where
  "stats lib data =
     map (\<lambda>g. (g, agg_price lib
                  (map price (filter (\<lambda>r. neighbourhood_group r = Some g) data))))
       (sorted_unique (map neighbourhood_group data))"

section \<open>Figures\<close>

text \<open>
  A figure is the plotly express call that made it, with the rows that the figure draws
  and the columns the call reads from them, and the layout settings that the program
  changes afterwards. Arguments that only style the drawing (axis titles, margins,
  legend, fonts, hover template) are left out. \<open>px_figure\<close> holds plotly's defaults:
  visible, automatic, zoomable axes.

  All three charts are called with \<^verbatim>\<open>color="neighbourhood_group"\<close>. Plotly express then
  draws one trace for every value of that column. When the column of the frame it is
  given holds one value in all (NaN counts as a value), the whole frame is that one
  trace. Otherwise it groups the frame by the column, and a row whose region is NaN is
  in no group, as in every pandas \<^verbatim>\<open>groupby\<close>: the figure has no point for it.
\<close>

definition px_groups :: "('a \<Rightarrow> string option) \<Rightarrow> 'a list \<Rightarrow> 'a list" where
  "px_groups col rows =
     (if length (remdups (map col rows)) = 1 then rows
      else filter (\<lambda>r. col r \<noteq> None) rows)"

record violin_point =
  vx :: "string option"
  vy :: rat
  v_room_type :: "string option"
  v_minimum_nights :: int
  v_number_of_reviews :: nat
  v_stats :: "price_stats option"

record map_point =
  lat :: "rat option"
  lon :: "rat option"
  color :: "string option"
  size_of :: nat
  hover_name :: string
  h_price :: rat
  h_room_type :: "string option"
  h_number_of_reviews :: nat
  h_minimum_nights :: int

datatype plot =
    Scatter
  | Histogram "(rat \<times> string option) list" nat rat string "(string \<times> string) list"
  | Violin "violin_point list" bool "string list" "(string \<times> string) list"
  | Scatter_mapbox "map_point list" nat rat "rat \<times> rat" string

record figure =
  plot_of :: plot
  title :: "string option"
  xaxis_visible :: bool
  yaxis_visible :: bool
  xaxis_range :: "(rat \<times> rat) option"
  yaxis_range :: "(rat \<times> rat) option"
  xaxis_fixedrange :: bool
  yaxis_fixedrange :: bool
  template :: string
  height :: "nat option"

definition px_figure :: "plot \<Rightarrow> string option \<Rightarrow> figure" where
  "px_figure p t =
     \<lparr>plot_of = p, title = t, xaxis_visible = True, yaxis_visible = True,
      xaxis_range = None, yaxis_range = None,
      xaxis_fixedrange = False, yaxis_fixedrange = False,
      template = ''plotly'', height = None\<rparr>"

text \<open>The placeholder of the empty branch.\<close>

definition empty_fig :: figure where
  "empty_fig =
     (px_figure Scatter (Some ''No data for selected filters''))
       \<lparr>xaxis_visible := False, yaxis_visible := False,
        template := ''simple_white'', height := Some 220\<rparr>"

text \<open>The histogram: \<^verbatim>\<open>base_cap\<close>, \<^verbatim>\<open>hist_data\<close> and \<^verbatim>\<open>hist_fig\<close>.\<close>

definition base_cap :: "ceiling \<Rightarrow> rat" where
  "base_cap price_ceiling =
     (case price_ceiling of Ceil_none \<Rightarrow> 800 | Ceil_num c \<Rightarrow> min 800 c)"

definition hist_data :: "frame \<Rightarrow> ceiling \<Rightarrow> frame" where
  "hist_data data price_ceiling = filter (\<lambda>r. price r \<le> base_cap price_ceiling) data"

definition hist_fig :: "frame \<Rightarrow> ceiling \<Rightarrow> figure" where
  "hist_fig data price_ceiling =
     (px_figure
        (Histogram
           (map (\<lambda>r. (price r, neighbourhood_group r))
              (px_groups neighbourhood_group (hist_data data price_ceiling)))
           50 (8 / 10) ''overlay'' borough_colors)
        None)
       \<lparr>template := ''simple_white'', height := Some 220,
        xaxis_range := Some (0, base_cap price_ceiling),
        xaxis_fixedrange := True, yaxis_fixedrange := True\<rparr>"

text \<open>The violin chart: \<^verbatim>\<open>data_violin\<close> is \<^verbatim>\<open>data\<close> with the statistics of the row's region
  joined to every row (a left join: none for a row without a region).\<close>

definition data_violin :: "pandas \<Rightarrow> frame \<Rightarrow> violin_point list" where
  "data_violin lib data =
     map (\<lambda>r. \<lparr>vx = neighbourhood_group r, vy = price r, v_room_type = room_type r,
               v_minimum_nights = minimum_nights r,
               v_number_of_reviews = number_of_reviews r,
               v_stats = (case neighbourhood_group r of
                            None \<Rightarrow> None
                          | Some g \<Rightarrow> (case map_of (stats lib data) g of
                                        None \<Rightarrow> None | Some st \<Rightarrow> st))\<rparr>)
       data"

definition violin_fig :: "app \<Rightarrow> frame \<Rightarrow> figure" where
  "violin_fig s data =
     (px_figure
        (Violin (px_groups vx (data_violin (pd s) data)) True (neigh_groups s) borough_colors)
        None)
       \<lparr>template := ''simple_white'', height := Some 220,
        yaxis_range := Some (0, PRICE_AXIS_MAX), yaxis_fixedrange := True\<rparr>"

text \<open>The map: \<^verbatim>\<open>map_data = data.dropna(subset=["latitude", "longitude"])\<close>.\<close>

definition map_data :: "frame \<Rightarrow> frame" where
  "map_data data = filter (\<lambda>r. latitude r \<noteq> None \<and> longitude r \<noteq> None) data"

definition map_point_of :: "listing \<Rightarrow> map_point" where
  "map_point_of r =
     \<lparr>lat = latitude r, lon = longitude r, color = neighbourhood_group r,
      size_of = number_of_reviews r, hover_name = neighbourhood r, h_price = price r,
      h_room_type = room_type r, h_number_of_reviews = number_of_reviews r,
      h_minimum_nights = minimum_nights r\<rparr>"

definition map_fig :: "frame \<Rightarrow> figure" where
  "map_fig data =
     (px_figure
        (Scatter_mapbox (map map_point_of (px_groups neighbourhood_group (map_data data)))
           8 (98 / 10)
           (407128 / 10000, - (740060 / 10000)) ''carto-positron'')
        None)
       \<lparr>height := Some 260\<rparr>"

section \<open>The callback\<close>

record outputs =
  price_hist :: figure
  price_violin :: figure
  listing_map :: figure
  kpi_avg_price :: string
  kpi_num_listings :: string
  kpi_avg_min_nights :: string

text \<open>
  \<^verbatim>\<open>update_all\<close> reads the module's globals and returns six values. The model takes the
  globals as an argument and returns them with the outputs: the program works on
  \<^verbatim>\<open>df.copy()\<close> and on fresh frames made by selection, and assigns to no global.
  \<open>view_of\<close> is the body of \<^verbatim>\<open>update_all\<close>, from the three selections to the
  \<^verbatim>\<open>return\<close> of the six values; \<open>update_all\<close> pairs its result with the globals.
\<close>

definition view_of :: "app \<Rightarrow> string \<Rightarrow> string \<Rightarrow> ceiling \<Rightarrow> outputs" where
  "view_of s neigh_group rt price_ceiling =
     (let data = filtered (df s) neigh_group rt price_ceiling
      in if data = []
         then \<lparr>price_hist = empty_fig, price_violin = empty_fig, listing_map = empty_fig,
               kpi_avg_price = ''N/A'', kpi_num_listings = ''N/A'',
               kpi_avg_min_nights = ''N/A''\<rparr>
         else
           let avg_price = series_mean (pd s) (map price data);
               num_listings = length data;
               avg_min_nights = series_mean (pd s) (map (\<lambda>r. of_int (minimum_nights r)) data)
           in \<lparr>price_hist = hist_fig data price_ceiling,
               price_violin = violin_fig s data,
               listing_map = map_fig data,
               kpi_avg_price = ''$'' @ fmt_float0 avg_price,
               kpi_num_listings = fmt_commas num_listings,
               kpi_avg_min_nights = fmt_float1 avg_min_nights @ '' nights''\<rparr>)"

definition update_all :: "app \<Rightarrow> string \<Rightarrow> string \<Rightarrow> ceiling \<Rightarrow> outputs \<times> app" where
  "update_all s neigh_group rt price_ceiling = (view_of s neigh_group rt price_ceiling, s)"

text \<open>A session: the callback run once for every event of a list, in order.\<close>

fun run_events :: "app \<Rightarrow> (string \<times> string \<times> ceiling) list \<Rightarrow> outputs list \<times> app" where
  "run_events s [] = ([], s)"
| "run_events s ((g, rt, c) # es) =
     (let (out, s1) = update_all s g rt c;
          (outs, s2) = run_events s1 es
      in (out # outs, s2))"

section \<open>Reading the outputs\<close>

text \<open>The points a figure draws, by kind of plot; none for a figure of another kind.\<close>

definition hist_points :: "figure \<Rightarrow> (rat \<times> string option) list" where
  "hist_points f = (case plot_of f of Histogram pts _ _ _ _ \<Rightarrow> pts | _ \<Rightarrow> [])"

definition violin_points :: "figure \<Rightarrow> violin_point list" where
  "violin_points f = (case plot_of f of Violin pts _ _ _ \<Rightarrow> pts | _ \<Rightarrow> [])"

definition map_points :: "figure \<Rightarrow> map_point list" where
  "map_points f = (case plot_of f of Scatter_mapbox pts _ _ _ _ \<Rightarrow> pts | _ \<Rightarrow> [])"

text \<open>Reading a number back from its display: commas dropped, decimal digits summed up.\<close>

definition digit_val :: "char \<Rightarrow> nat" where
  "digit_val ch = of_char ch - 48"

definition read_commas :: "string \<Rightarrow> nat" where
  "read_commas txt =
     foldl (\<lambda>a ch. 10 * a + digit_val ch) 0 (filter (\<lambda>ch. ch \<noteq> CHR '','') txt)"

text \<open>A table with its coordinates erased.\<close>

definition no_coords :: "listing \<Rightarrow> listing" where
  "no_coords r = r\<lparr>latitude := None, longitude := None\<rparr>"

text \<open>
  Dash runs every callback once when the page is loaded, with the values that the layout
  gives to its inputs.
\<close>

definition initial_load :: "app \<Rightarrow> outputs \<times> app" where
  "initial_load s =
     update_all s global_neigh_group_value global_room_type_value global_price_ceiling_value"

section \<open>A small table for worked examples\<close>

definition listing_a :: listing where
  "listing_a = \<lparr>price = 150, neighbourhood_group = Some ''Manhattan'',
     room_type = Some ''Entire home/apt'', minimum_nights = 3, number_of_reviews = 10,
     latitude = Some (4081 / 100), longitude = Some (- (7394 / 100)),
     neighbourhood = ''Harlem''\<rparr>"

definition listing_b :: listing where
  "listing_b = \<lparr>price = 900, neighbourhood_group = Some ''Brooklyn'',
     room_type = Some ''Private room'', minimum_nights = 2, number_of_reviews = 0,
     latitude = None, longitude = None, neighbourhood = ''Williamsburg''\<rparr>"

definition listing_c :: listing where
  "listing_c = \<lparr>price = 60, neighbourhood_group = Some ''Manhattan'',
     room_type = Some ''Private room'', minimum_nights = 31, number_of_reviews = 4,
     latitude = Some (4072 / 100), longitude = None, neighbourhood = ''Chelsea''\<rparr>"

definition sample_csv :: frame where
  "sample_csv = [listing_a, listing_b, listing_c]"

text \<open>A listing with coordinates and without a region, and a table that holds it.\<close>

definition listing_d :: listing where
  "listing_d = \<lparr>price = 120, neighbourhood_group = None,
     room_type = Some ''Private room'', minimum_nights = 1, number_of_reviews = 2,
     latitude = Some (4070 / 100), longitude = Some (- (7390 / 100)),
     neighbourhood = ''Midtown''\<rparr>"

definition sample_gap_csv :: frame where
  "sample_gap_csv = [listing_a, listing_d]"

text \<open>
  A library for the examples: the mean as the exact quotient, the median and the
  quartiles by linear interpolation between the sorted cells. Every mean of rows of the
  two example tables is a whole number or a half, which floating point computes without
  error.
\<close>

definition exact_mean :: "rat list \<Rightarrow> float64" where
  "exact_mean xs =
     (if xs = [] then F_nan else F_finite (sum_list xs / of_nat (length xs)))"

definition exact_quantile :: "rat list \<Rightarrow> rat \<Rightarrow> float64" where
  "exact_quantile xs q =
     (if xs = [] \<or> q < 0 \<or> 1 < q then F_nan
      else let v = sort xs;
               pos = of_nat (length xs - 1) * q;
               lo = nat \<lfloor>pos\<rfloor>;
               hi = nat \<lceil>pos\<rceil>
           in F_finite (v ! lo + (v ! hi - v ! lo) * (pos - of_nat lo)))"

definition sample_pd :: pandas where
  "sample_pd =
     \<lparr>series_mean = exact_mean,
      series_median = (\<lambda>xs. exact_quantile xs (1 / 2)),
      series_quantile = exact_quantile\<rparr>"

section \<open>Properties of the filter\<close>

lemma filtered_filter:
  "filtered d g rt c = filter (\<lambda>r. region_ok g r \<and> room_ok rt r \<and> ceiling_ok c r) d"
  by (cases c)
     (auto simp: filtered_def by_neigh_group_def by_room_type_def by_price_ceiling_def
        region_ok_def room_ok_def ceiling_ok_def intro: filter_cong)

lemma by_neigh_group_filter: "by_neigh_group g d = filter (region_ok g) d"
  by (auto simp: by_neigh_group_def region_ok_def filter_id_conv intro!: filter_cong)

lemma by_room_type_filter: "by_room_type rt d = filter (room_ok rt) d"
  by (auto simp: by_room_type_def room_ok_def filter_id_conv intro!: filter_cong)

lemma by_price_ceiling_filter: "by_price_ceiling c d = filter (ceiling_ok c) d"
  by (cases c) (auto simp: by_price_ceiling_def ceiling_ok_def filter_id_conv intro!: filter_cong)

text \<open>
  Claim C7. For every filter tuple, the filtered subset is the rows of the table that
  satisfy all three conditions together (the region equals the selection unless it is
  "All", the room type equals the selection unless it is "All", the price is at most the
  ceiling unless it is "none"), and the three selections give the same subset in each of
  the six orders in which they can be applied.
\<close>

theorem filtered_conjunction_any_order:
  "filtered d g rt c = filter (\<lambda>r. region_ok g r \<and> room_ok rt r \<and> ceiling_ok c r) d
   \<and> set (filtered d g rt c) = {r \<in> set d. region_ok g r \<and> room_ok rt r \<and> ceiling_ok c r}
   \<and> by_price_ceiling c (by_neigh_group g (by_room_type rt d)) = filtered d g rt c
   \<and> by_room_type rt (by_price_ceiling c (by_neigh_group g d)) = filtered d g rt c
   \<and> by_room_type rt (by_neigh_group g (by_price_ceiling c d)) = filtered d g rt c
   \<and> by_neigh_group g (by_price_ceiling c (by_room_type rt d)) = filtered d g rt c
   \<and> by_neigh_group g (by_room_type rt (by_price_ceiling c d)) = filtered d g rt c"
  unfolding filtered_def by_neigh_group_filter by_room_type_filter by_price_ceiling_filter
  by (auto intro: filter_cong)

text \<open>On the example table: Manhattan, any room type, at most 100.\<close>

theorem filtered_conjunction_any_order_witness:
  "filtered sample_csv ''Manhattan'' ''All'' (Ceil_num 100) = [listing_c]
   \<and> by_neigh_group ''Manhattan'' (by_room_type ''All'' (by_price_ceiling (Ceil_num 100) sample_csv))
       = [listing_c]"
  using filtered_conjunction_any_order [of sample_csv "''Manhattan''" "''All''" "Ceil_num 100"]
  by (simp add: sample_csv_def listing_a_def listing_b_def listing_c_def
       region_ok_def room_ok_def ceiling_ok_def)

text \<open>
  Claim C10. The price ceiling is monotone: for a fixed region and room type and two
  ceilings \<open>c1 \<le> c2\<close>, the subset under \<open>c1\<close> is the part of the subset under \<open>c2\<close>
  with price at most \<open>c1\<close>, the subset under \<open>c2\<close> is a part of the subset without
  ceiling, and so the number of listings does not go down when the ceiling goes up.
\<close>

theorem ceiling_monotone:
  assumes "c1 \<le> c2"
  shows "filtered d g rt (Ceil_num c1) = filter (\<lambda>r. price r \<le> c1) (filtered d g rt (Ceil_num c2))
   \<and> filtered d g rt (Ceil_num c2) = filter (\<lambda>r. price r \<le> c2) (filtered d g rt Ceil_none)
   \<and> set (filtered d g rt (Ceil_num c1)) \<subseteq> set (filtered d g rt (Ceil_num c2))
   \<and> set (filtered d g rt (Ceil_num c2)) \<subseteq> set (filtered d g rt Ceil_none)
   \<and> length (filtered d g rt (Ceil_num c1)) \<le> length (filtered d g rt (Ceil_num c2))
   \<and> length (filtered d g rt (Ceil_num c2)) \<le> length (filtered d g rt Ceil_none)"
proof -
  let ?base = "by_room_type rt (by_neigh_group g d)"
  have none: "filtered d g rt Ceil_none = ?base"
    by (simp add: filtered_def by_price_ceiling_def)
  have num: "filtered d g rt (Ceil_num c) = filter (\<lambda>r. price r \<le> c) ?base" for c
    by (simp add: filtered_def by_price_ceiling_def)
  have a: "filtered d g rt (Ceil_num c1)
      = filter (\<lambda>r. price r \<le> c1) (filtered d g rt (Ceil_num c2))"
    using assms unfolding num by (auto intro: filter_cong)
  have b: "filtered d g rt (Ceil_num c2) = filter (\<lambda>r. price r \<le> c2) (filtered d g rt Ceil_none)"
    by (simp add: num none)
  have c: "set (filtered d g rt (Ceil_num c1)) \<subseteq> set (filtered d g rt (Ceil_num c2))"
    by (subst a) auto
  have d: "set (filtered d g rt (Ceil_num c2)) \<subseteq> set (filtered d g rt Ceil_none)"
    by (subst b) auto
  have e: "length (filtered d g rt (Ceil_num c1)) \<le> length (filtered d g rt (Ceil_num c2))"
    by (subst a) (rule length_filter_le)
  have f: "length (filtered d g rt (Ceil_num c2)) \<le> length (filtered d g rt Ceil_none)"
    by (subst b) (rule length_filter_le)
  from a b c d e f show ?thesis by blast
qed

theorem ceiling_monotone_witness:
  "(200::rat) \<le> 1000
   \<and> length (filtered sample_csv ''All'' ''All'' (Ceil_num 200))
       \<le> length (filtered sample_csv ''All'' ''All'' (Ceil_num 1000))
   \<and> length (filtered sample_csv ''All'' ''All'' (Ceil_num 200)) = 2
   \<and> length (filtered sample_csv ''All'' ''All'' (Ceil_num 1000)) = 3"
proof -
  have h: "(200::rat) \<le> 1000" by simp
  have "length (filtered sample_csv ''All'' ''All'' (Ceil_num 200)) = 2"
    by code_simp
  moreover have "length (filtered sample_csv ''All'' ''All'' (Ceil_num 1000)) = 3"
    by code_simp
  ultimately show ?thesis using h ceiling_monotone [OF h, of sample_csv "''All''" "''All''"] by simp
qed

section \<open>Properties of the number formats\<close>

lemma digit_cases: "k < 10 \<Longrightarrow> k = 0 \<or> k = 1 \<or> k = 2 \<or> k = 3 \<or> k = 4 \<or> k = 5 \<or> k = 6 \<or> k = 7 \<or> k = 8 \<or> k = (9::nat)"
  by arith

lemma digit_val_digit_char: "digit_val (digit_char d) = d mod 10"
proof -
  have "d mod 10 < 10" by simp
  from digit_cases [OF this] show ?thesis
    by (auto simp: digit_val_def digit_char_def)
qed

lemma digit_char_not_comma: "digit_char d \<noteq> CHR '',''"
proof -
  have "d mod 10 < 10" by simp
  from digit_cases [OF this] show ?thesis
    by (auto simp: digit_char_def)
qed

lemma dec_digits_no_comma: "CHR '','' \<notin> set (dec_digits n)"
proof (induction n rule: dec_digits.induct)
  case (1 n)
  show ?case
  proof (cases "n < 10")
    case True
    then show ?thesis by (subst dec_digits.simps) (simp add: digit_char_not_comma [symmetric])
  next
    case False
    with 1 show ?thesis by (subst dec_digits.simps) (simp add: digit_char_not_comma [symmetric])
  qed
qed

lemma read_dec_digits:
  "foldl (\<lambda>a ch. 10 * a + digit_val ch) 0 (dec_digits n) = n"
proof (induction n rule: dec_digits.induct)
  case (1 n)
  show ?case
  proof (cases "n < 10")
    case True
    then show ?thesis by (subst dec_digits.simps) (simp add: digit_val_digit_char)
  next
    case False
    with 1 show ?thesis by (subst dec_digits.simps) (simp add: digit_val_digit_char)
  qed
qed




lemma read_plain_digits: "read_commas (dec_digits n) = n"
proof -
  have "filter (\<lambda>ch. ch \<noteq> CHR '','') (dec_digits n) = dec_digits n"
    by (rule filter_True) (use dec_digits_no_comma [of n] in blast)
  then show ?thesis by (simp add: read_commas_def read_dec_digits)
qed

lemma round_half_even_near: "\<bar>of_int (round_half_even x) - x\<bar> \<le> 1 / 2"
proof -
  define d where "d = x - of_int \<lfloor>x\<rfloor>"
  have d: "0 \<le> d" "d < 1" unfolding d_def by linarith+
  have x: "x = of_int \<lfloor>x\<rfloor> + d" by (simp add: d_def)
  consider "d < 1 / 2" | "1 / 2 < d" | "d = 1 / 2" by linarith
  then show ?thesis
  proof cases
    case 1
    then have "round_half_even x = \<lfloor>x\<rfloor>"
      by (simp add: round_half_even_def Let_def d_def)
    with 1 d show ?thesis by (simp add: d_def)
  next
    case 2
    then have "round_half_even x = \<lfloor>x\<rfloor> + 1"
      by (simp add: round_half_even_def Let_def d_def)
    with 2 d show ?thesis by (simp add: d_def)
  next
    case 3
    then have "round_half_even x = \<lfloor>x\<rfloor> \<or> round_half_even x = \<lfloor>x\<rfloor> + 1"
      by (simp add: round_half_even_def Let_def d_def)
    with 3 d show ?thesis by (auto simp: d_def)
  qed
qed

lemma round_half_even_nonneg: "0 \<le> x \<Longrightarrow> 0 \<le> round_half_even x"
proof -
  assume "0 \<le> x"
  then have "0 \<le> \<lfloor>x\<rfloor>" by simp
  then show ?thesis by (simp add: round_half_even_def Let_def)
qed

lemma length_group3: "length (group3 ds) = length ds + (length ds - 1) div 3"
  by (induction ds rule: group3.induct) simp_all

text \<open>Both float formats show a value nearest to the float: at most one half, or one
  twentieth, away from it.\<close>

lemma of_nat_round_abs: "of_nat (nat (round_half_even \<bar>x\<bar>)) = (of_int (round_half_even \<bar>x\<bar>) :: rat)"
  using round_half_even_nonneg [of "\<bar>x\<bar>"] by simp

lemma tenth_bound: "\<bar>(r::rat) - y * 10\<bar> \<le> 1 / 2 \<Longrightarrow> \<bar>r / 10 - y\<bar> \<le> 1 / 20"
proof -
  assume a: "\<bar>r - y * 10\<bar> \<le> 1 / 2"
  have e: "r / 10 - y = (r - y * 10) / 10" by (simp add: field_simps)
  have "\<bar>r / 10 - y\<bar> = \<bar>r - y * 10\<bar> / \<bar>10\<bar>"
    unfolding e by (rule abs_divide)
  also have "\<dots> = \<bar>r - y * 10\<bar> / 10" by simp
  also have "\<dots> \<le> (1 / 2) / 10" using a by (rule divide_right_mono) simp
  finally show ?thesis by simp
qed

lemma one_decimal_near:
  "\<bar>of_nat (nat (round_half_even (\<bar>x\<bar> * 10))) / 10 - \<bar>x\<bar>\<bar> \<le> 1 / 20"
proof -
  have nn: "0 \<le> round_half_even (\<bar>x\<bar> * 10)"
    by (rule round_half_even_nonneg) simp
  have "\<bar>of_int (round_half_even (\<bar>x\<bar> * 10)) - \<bar>x\<bar> * 10\<bar> \<le> 1 / 2"
    by (rule round_half_even_near)
  then have "\<bar>of_int (round_half_even (\<bar>x\<bar> * 10)) / 10 - \<bar>x\<bar>\<bar> \<le> 1 / 20"
    by (rule tenth_bound)
  with nn show ?thesis by simp
qed

lemma dec_digits_nonempty: "dec_digits n \<noteq> []"
  by (subst dec_digits.simps) simp

lemma dec_digits_small: "n < 10 \<Longrightarrow> dec_digits n = [digit_char n]"
  by (subst dec_digits.simps) simp

lemma dec_digits_step: "10 \<le> n \<Longrightarrow> dec_digits n = dec_digits (n div 10) @ [digit_char (n mod 10)]"
  by (subst dec_digits.simps) simp

lemma dec_digits_split3:
  assumes "1000 \<le> n"
  shows "dec_digits n = dec_digits (n div 1000)
           @ [digit_char (n div 100 mod 10), digit_char (n div 10 mod 10), digit_char (n mod 10)]"
proof -
  have s1: "dec_digits n = dec_digits (n div 10) @ [digit_char (n mod 10)]"
    using assms by (intro dec_digits_step) simp
  have "10 \<le> n div 10"
    using assms by simp
  then have "dec_digits (n div 10) = dec_digits (n div 10 div 10) @ [digit_char (n div 10 mod 10)]"
    by (rule dec_digits_step)
  then have s2: "dec_digits (n div 10) = dec_digits (n div 100) @ [digit_char (n div 10 mod 10)]"
    by (simp add: div_mult2_eq [symmetric])
  have "10 \<le> n div 100"
    using assms by simp
  then have "dec_digits (n div 100) = dec_digits (n div 100 div 10) @ [digit_char (n div 100 mod 10)]"
    by (rule dec_digits_step)
  then have s3: "dec_digits (n div 100) = dec_digits (n div 1000) @ [digit_char (n div 100 mod 10)]"
    by (simp add: div_mult2_eq [symmetric])
  show ?thesis
    by (simp add: s1 s2 s3)
qed

lemma length_dec_digits_small: "n < 1000 \<Longrightarrow> length (dec_digits n) \<le> 3"
proof -
  assume n: "n < 1000"
  show ?thesis
  proof (cases "n < 10")
    case True
    then show ?thesis by (simp add: dec_digits_small)
  next
    case False
    then have a: "10 \<le> n" by simp
    show ?thesis
    proof (cases "n div 10 < 10")
      case True
      then show ?thesis by (simp add: dec_digits_step [OF a] dec_digits_small)
    next
      case False
      then have b: "10 \<le> n div 10" by simp
      from n have "n div 10 div 10 < 10" by simp
      then show ?thesis
        by (simp add: dec_digits_step [OF a] dec_digits_step [OF b] dec_digits_small)
    qed
  qed
qed

lemma group3_short: "length ds \<le> 3 \<Longrightarrow> group3 ds = ds"
  by (induction ds rule: group3.induct) simp_all

text \<open>The comma format by blocks of three digits: no comma below one thousand, and from
  one thousand on the format of the thousands, a comma, and the last three digits.\<close>

lemma fmt_commas_below_1000: "n < 1000 \<Longrightarrow> fmt_commas n = dec_digits n"
  by (simp add: fmt_commas_def group3_short length_dec_digits_small)

lemma fmt_commas_from_1000:
  assumes "1000 \<le> n"
  shows "fmt_commas n = fmt_commas (n div 1000) @ '',''
           @ [digit_char (n div 100 mod 10), digit_char (n div 10 mod 10), digit_char (n mod 10)]"
proof -
  obtain x xs where r: "rev (dec_digits (n div 1000)) = x # xs"
    using dec_digits_nonempty [of "n div 1000"] by (cases "rev (dec_digits (n div 1000))") auto
  have "rev (dec_digits n)
      = digit_char (n mod 10) # digit_char (n div 10 mod 10) # digit_char (n div 100 mod 10)
        # x # xs"
    by (simp add: dec_digits_split3 [OF assms] r)
  then have "group3 (rev (dec_digits n))
      = digit_char (n mod 10) # digit_char (n div 10 mod 10) # digit_char (n div 100 mod 10)
        # CHR '','' # group3 (rev (dec_digits (n div 1000)))"
    by (simp add: r)
  then show ?thesis
    by (simp add: fmt_commas_def)
qed

lemma fmt_commas_examples:
  "fmt_commas 0 = ''0''" "fmt_commas 999 = ''999''" "fmt_commas 1000 = ''1,000''"
  "fmt_commas 2345 = ''2,345''"
  by code_simp+

lemma fmt_float_examples:
  "fmt_float0 (F_finite (5 / 2)) = ''2''" "fmt_float0 (F_finite (7 / 2)) = ''4''"
  "fmt_float0 (F_finite (2469 / 2)) = ''1,234''" "fmt_float0 F_nan = ''nan''"
  "fmt_float1 (F_finite (5 / 4)) = ''1.2''" "fmt_float1 (F_finite (11 / 8)) = ''1.4''"
  "fmt_float1 (F_finite (- (1 / 32))) = ''-0.0''" "fmt_float1 F_inf = ''inf''"
  by code_simp+

section \<open>Properties of the callback\<close>

lemma view_of_empty:
  "filtered (df s) g rt c = [] \<Longrightarrow>
   view_of s g rt c =
     \<lparr>price_hist = empty_fig, price_violin = empty_fig, listing_map = empty_fig,
      kpi_avg_price = ''N/A'', kpi_num_listings = ''N/A'', kpi_avg_min_nights = ''N/A''\<rparr>"
  by (simp add: view_of_def)

lemma view_of_nonempty:
  "filtered (df s) g rt c \<noteq> [] \<Longrightarrow>
   view_of s g rt c =
     \<lparr>price_hist = hist_fig (filtered (df s) g rt c) c,
      price_violin = violin_fig s (filtered (df s) g rt c),
      listing_map = map_fig (filtered (df s) g rt c),
      kpi_avg_price = ''$'' @ fmt_float0 (series_mean (pd s) (map price (filtered (df s) g rt c))),
      kpi_num_listings = fmt_commas (length (filtered (df s) g rt c)),
      kpi_avg_min_nights =
        fmt_float1 (series_mean (pd s)
          (map (\<lambda>r. of_int (minimum_nights r)) (filtered (df s) g rt c)))
        @ '' nights''\<rparr>"
  by (simp add: view_of_def Let_def)

lemma fst_update_all: "fst (update_all s g rt c) = view_of s g rt c"
  by (simp add: update_all_def)

lemma plot_of_empty_fig: "plot_of empty_fig = Scatter"
  by (simp add: empty_fig_def px_figure_def)

lemma plot_of_hist_fig: "plot_of (hist_fig data c) \<noteq> Scatter"
  by (simp add: hist_fig_def px_figure_def)

lemma plot_of_violin_fig: "plot_of (violin_fig s data) \<noteq> Scatter"
  by (simp add: violin_fig_def px_figure_def)

lemma plot_of_map_fig: "plot_of (map_fig data) \<noteq> Scatter"
  by (simp add: map_fig_def px_figure_def)

lemma set_group3: "set (group3 ds) \<subseteq> insert (CHR '','') (set ds)"
  by (induction ds rule: group3.induct) auto

lemma digit_char_not_N: "digit_char d \<noteq> CHR ''N''"
proof -
  have "d mod 10 < 10" by simp
  from digit_cases [OF this] show ?thesis
    by (auto simp: digit_char_def)
qed

lemma dec_digits_no_N: "CHR ''N'' \<notin> set (dec_digits n)"
proof (induction n rule: dec_digits.induct)
  case (1 n)
  show ?case
  proof (cases "n < 10")
    case True
    then show ?thesis by (subst dec_digits.simps) (simp add: digit_char_not_N [symmetric])
  next
    case False
    with 1 show ?thesis by (subst dec_digits.simps) (simp add: digit_char_not_N [symmetric])
  qed
qed

lemma fmt_commas_not_NA: "fmt_commas n \<noteq> ''N/A''"
proof
  assume "fmt_commas n = ''N/A''"
  then have "CHR ''N'' \<in> set (fmt_commas n)" by simp
  then have "CHR ''N'' \<in> set (group3 (rev (dec_digits n)))"
    by (simp add: fmt_commas_def)
  with set_group3 [of "rev (dec_digits n)"] have "CHR ''N'' \<in> set (dec_digits n)"
    by auto
  with dec_digits_no_N show False by blast
qed

text \<open>
  Claim C1. For every filter tuple, the filtered subset is empty if and only if
  \<^verbatim>\<open>update_all\<close> returns the placeholder: the three figures are the figure without data
  titled "No data for selected filters" with both axes hidden, and the three headline
  values are the text "N/A". The same holds for each of the six outputs on its own. The
  callback has no failing branch: it returns six outputs for every input.
\<close>

theorem empty_iff_placeholder:
  "(filtered (df s) g rt c = [] \<longleftrightarrow>
      fst (update_all s g rt c) =
        \<lparr>price_hist = empty_fig, price_violin = empty_fig, listing_map = empty_fig,
         kpi_avg_price = ''N/A'', kpi_num_listings = ''N/A'', kpi_avg_min_nights = ''N/A''\<rparr>)
   \<and> (filtered (df s) g rt c = [] \<longleftrightarrow> price_hist (fst (update_all s g rt c)) = empty_fig)
   \<and> (filtered (df s) g rt c = [] \<longleftrightarrow> price_violin (fst (update_all s g rt c)) = empty_fig)
   \<and> (filtered (df s) g rt c = [] \<longleftrightarrow> listing_map (fst (update_all s g rt c)) = empty_fig)
   \<and> (filtered (df s) g rt c = [] \<longleftrightarrow> kpi_avg_price (fst (update_all s g rt c)) = ''N/A'')
   \<and> (filtered (df s) g rt c = [] \<longleftrightarrow> kpi_num_listings (fst (update_all s g rt c)) = ''N/A'')
   \<and> (filtered (df s) g rt c = [] \<longleftrightarrow> kpi_avg_min_nights (fst (update_all s g rt c)) = ''N/A'')
   \<and> plot_of empty_fig = Scatter
   \<and> title empty_fig = Some ''No data for selected filters''
   \<and> xaxis_visible empty_fig = False \<and> yaxis_visible empty_fig = False"
proof (cases "filtered (df s) g rt c = []")
  case True
  then show ?thesis
    by (simp add: fst_update_all view_of_empty) (simp add: empty_fig_def px_figure_def)
next
  case False
  have h: "price_hist (view_of s g rt c) \<noteq> empty_fig"
    using plot_of_hist_fig plot_of_empty_fig by (simp add: view_of_nonempty [OF False]) metis
  have v: "price_violin (view_of s g rt c) \<noteq> empty_fig"
    using plot_of_violin_fig plot_of_empty_fig by (simp add: view_of_nonempty [OF False]) metis
  have m: "listing_map (view_of s g rt c) \<noteq> empty_fig"
    using plot_of_map_fig plot_of_empty_fig by (simp add: view_of_nonempty [OF False]) metis
  have p: "kpi_avg_price (view_of s g rt c) \<noteq> ''N/A''"
    by (simp add: view_of_nonempty [OF False])
  have n: "kpi_num_listings (view_of s g rt c) \<noteq> ''N/A''"
    by (simp add: view_of_nonempty [OF False] fmt_commas_not_NA)
  have "length (kpi_avg_min_nights (view_of s g rt c)) \<ge> 7"
    by (simp add: view_of_nonempty [OF False])
  then have a: "kpi_avg_min_nights (view_of s g rt c) \<noteq> ''N/A''"
    by auto
  have e: "plot_of empty_fig = Scatter \<and> title empty_fig = Some ''No data for selected filters''
     \<and> xaxis_visible empty_fig = False \<and> yaxis_visible empty_fig = False"
    by (simp add: empty_fig_def px_figure_def)
  have w: "view_of s g rt c \<noteq>
        \<lparr>price_hist = empty_fig, price_violin = empty_fig, listing_map = empty_fig,
         kpi_avg_price = ''N/A'', kpi_num_listings = ''N/A'', kpi_avg_min_nights = ''N/A''\<rparr>"
    using p by (metis outputs.select_convs(4))
  from False h v m p n a e w show ?thesis
    unfolding fst_update_all by blast
qed

text \<open>On the example table: Queens has no listing; at most 200 leaves two listings.\<close>

theorem empty_iff_placeholder_witness:
  "filtered (df (startup sample_pd sample_csv)) ''Queens'' ''All'' (Ceil_num 200) = []
   \<and> fst (update_all (startup sample_pd sample_csv) ''Queens'' ''All'' (Ceil_num 200)) =
        \<lparr>price_hist = empty_fig, price_violin = empty_fig, listing_map = empty_fig,
         kpi_avg_price = ''N/A'', kpi_num_listings = ''N/A'', kpi_avg_min_nights = ''N/A''\<rparr>
   \<and> filtered (df (startup sample_pd sample_csv)) ''All'' ''All'' (Ceil_num 200) \<noteq> []
   \<and> kpi_num_listings (fst (update_all (startup sample_pd sample_csv) ''All'' ''All'' (Ceil_num 200))) \<noteq> ''N/A''"
proof -
  have a: "filtered (df (startup sample_pd sample_csv)) ''Queens'' ''All'' (Ceil_num 200) = []"
    by code_simp
  have b: "filtered (df (startup sample_pd sample_csv)) ''All'' ''All'' (Ceil_num 200) \<noteq> []"
    by code_simp
  show ?thesis
    using a b
      empty_iff_placeholder [of "startup sample_pd sample_csv" "''Queens''" "''All''" "Ceil_num 200"]
      empty_iff_placeholder [of "startup sample_pd sample_csv" "''All''" "''All''" "Ceil_num 200"]
    by blast
qed

lemma price_hist_nonempty:
  "filtered (df s) g rt c \<noteq> [] \<Longrightarrow>
   price_hist (fst (update_all s g rt c)) = hist_fig (filtered (df s) g rt c) c"
  by (simp add: fst_update_all view_of_nonempty)

lemma price_violin_nonempty:
  "filtered (df s) g rt c \<noteq> [] \<Longrightarrow>
   price_violin (fst (update_all s g rt c)) = violin_fig s (filtered (df s) g rt c)"
  by (simp add: fst_update_all view_of_nonempty)

lemma listing_map_nonempty:
  "filtered (df s) g rt c \<noteq> [] \<Longrightarrow>
   listing_map (fst (update_all s g rt c)) = map_fig (filtered (df s) g rt c)"
  by (simp add: fst_update_all view_of_nonempty)

lemma xaxis_range_hist_fig: "xaxis_range (hist_fig data c) = Some (0, base_cap c)"
  by (simp add: hist_fig_def px_figure_def)

lemma hist_points_hist_fig:
  "hist_points (hist_fig data c) =
     map (\<lambda>r. (price r, neighbourhood_group r))
       (px_groups neighbourhood_group (filter (\<lambda>r. price r \<le> base_cap c) data))"
  by (simp add: hist_points_def hist_fig_def px_figure_def hist_data_def)

lemma filtered_all_all: "filtered d ''All'' ''All'' (Ceil_num p) = filter (\<lambda>r. price r \<le> p) d"
  by (simp add: filtered_def by_neigh_group_def by_room_type_def by_price_ceiling_def)

text \<open>
  Claim C3. For every filter tuple with a non-empty filtered subset, the upper end of the
  histogram's x-axis is the smaller of 800 and the price ceiling when a ceiling is
  selected, and 800 when the ceiling is "none". With region "All", room type "All" and
  ceiling 200 the subset is the rows of the table with price at most 200, and the upper
  end of the axis is 200.
\<close>

theorem hist_xaxis_upper_bound:
  assumes "filtered (df s) g rt c \<noteq> []"
  shows "xaxis_range (price_hist (fst (update_all s g rt c)))
           = Some (0, case c of Ceil_none \<Rightarrow> 800 | Ceil_num p \<Rightarrow> min 800 p)
     \<and> (g = ''All'' \<and> rt = ''All'' \<and> c = Ceil_num 200 \<longrightarrow>
          filtered (df s) g rt c = filter (\<lambda>r. price r \<le> 200) (df s)
          \<and> (\<forall>r \<in> set (df s). 200 < price r \<longrightarrow> r \<notin> set (filtered (df s) g rt c))
          \<and> xaxis_range (price_hist (fst (update_all s g rt c))) = Some (0, 200))"
proof -
  have a: "xaxis_range (price_hist (fst (update_all s g rt c)))
      = Some (0, case c of Ceil_none \<Rightarrow> 800 | Ceil_num p \<Rightarrow> min 800 p)"
    by (simp add: price_hist_nonempty [OF assms] xaxis_range_hist_fig base_cap_def)
  have b: "filtered (df s) ''All'' ''All'' (Ceil_num 200) = filter (\<lambda>r. price r \<le> 200) (df s)"
    by (rule filtered_all_all)
  have c: "\<forall>r \<in> set (df s). 200 < price r \<longrightarrow>
      r \<notin> set (filtered (df s) ''All'' ''All'' (Ceil_num 200))"
    unfolding b by auto
  have d: "c = Ceil_num 200 \<Longrightarrow>
      xaxis_range (price_hist (fst (update_all s g rt c))) = Some (0, 200)"
    unfolding a by simp
  from a b c d show ?thesis by blast
qed

theorem hist_xaxis_upper_bound_witness:
  "filtered (df (startup sample_pd sample_csv)) ''All'' ''All'' (Ceil_num 200) \<noteq> []
   \<and> xaxis_range (price_hist (fst (update_all (startup sample_pd sample_csv) ''All'' ''All'' (Ceil_num 200))))
       = Some (0, 200)
   \<and> filtered (df (startup sample_pd sample_csv)) ''All'' ''All'' (Ceil_num 200) = [listing_a, listing_c]
   \<and> listing_b \<in> set (df (startup sample_pd sample_csv))
   \<and> listing_b \<notin> set (filtered (df (startup sample_pd sample_csv)) ''All'' ''All'' (Ceil_num 200))"
proof -
  have h: "filtered (df (startup sample_pd sample_csv)) ''All'' ''All'' (Ceil_num 200) \<noteq> []"
    by code_simp
  have e: "filtered (df (startup sample_pd sample_csv)) ''All'' ''All'' (Ceil_num 200) = [listing_a, listing_c]"
    by code_simp
  have b: "listing_b \<in> set (df (startup sample_pd sample_csv))"
    by code_simp
  have p: "200 < price listing_b"
    by code_simp
  from hist_xaxis_upper_bound [OF h] b p
  have "xaxis_range (price_hist (fst (update_all (startup sample_pd sample_csv) ''All'' ''All'' (Ceil_num 200))))
       = Some (0, 200)
     \<and> listing_b \<notin> set (filtered (df (startup sample_pd sample_csv)) ''All'' ''All'' (Ceil_num 200))"
    by blast
  with h e b show ?thesis by blast
qed

text \<open>
  Claim C5. For every filter tuple with a non-empty filtered subset, the upper end of the
  violin chart's y-axis is 600, whatever the region, the room type and the price ceiling.
\<close>

theorem violin_yaxis_upper_bound:
  assumes "filtered (df s) g rt c \<noteq> []"
  shows "yaxis_range (price_violin (fst (update_all s g rt c))) = Some (0, 600)"
  by (simp add: price_violin_nonempty [OF assms] violin_fig_def px_figure_def
        PRICE_AXIS_MAX_def)

theorem violin_yaxis_upper_bound_witness:
  "filtered (df (startup sample_pd sample_csv)) ''Brooklyn'' ''Private room'' (Ceil_num 1000) \<noteq> []
   \<and> yaxis_range (price_violin
         (fst (update_all (startup sample_pd sample_csv) ''Brooklyn'' ''Private room'' (Ceil_num 1000))))
       = Some (0, 600)
   \<and> filtered (df (startup sample_pd sample_csv)) ''All'' ''All'' Ceil_none \<noteq> []
   \<and> yaxis_range (price_violin (fst (update_all (startup sample_pd sample_csv) ''All'' ''All'' Ceil_none)))
       = Some (0, 600)"
proof -
  have h1: "filtered (df (startup sample_pd sample_csv)) ''Brooklyn'' ''Private room'' (Ceil_num 1000) \<noteq> []"
    by code_simp
  have h2: "filtered (df (startup sample_pd sample_csv)) ''All'' ''All'' Ceil_none \<noteq> []"
    by code_simp
  from h1 h2 violin_yaxis_upper_bound [OF h1] violin_yaxis_upper_bound [OF h2]
  show ?thesis by (intro conjI)
qed

text \<open>
  Claim C4, as the specification states it: at the first load all three filters are at
  "All" or unbounded, so that the first view is the whole loaded table. The program sets
  the price ceiling to 800 in the layout. On the example table the first view leaves out
  the listing priced 900.
\<close>

theorem default_view_counterexample:
  "\<not> (global_price_ceiling_value = Ceil_none
      \<or> filtered (df (startup sample_pd sample_csv)) global_neigh_group_value global_room_type_value
           global_price_ceiling_value = df (startup sample_pd sample_csv)
      \<or> kpi_num_listings (fst (initial_load (startup sample_pd sample_csv)))
           = fmt_commas (length (df (startup sample_pd sample_csv))))"
proof -
  have a: "global_price_ceiling_value \<noteq> Ceil_none"
    by (simp add: global_price_ceiling_value_def)
  have b: "filtered (df (startup sample_pd sample_csv)) global_neigh_group_value global_room_type_value
           global_price_ceiling_value \<noteq> df (startup sample_pd sample_csv)"
    by code_simp
  have c: "kpi_num_listings (fst (initial_load (startup sample_pd sample_csv)))
           \<noteq> fmt_commas (length (df (startup sample_pd sample_csv)))"
    by code_simp
  from a b c show ?thesis by blast
qed

text \<open>
  Claim C4, amended: at the first load the region and the room type are at "All" and the
  price ceiling is at 800, so the first view is computed from the loaded rows with price
  at most 800.
\<close>

theorem default_view:
  "global_neigh_group_value = ''All''
   \<and> global_room_type_value = ''All''
   \<and> global_price_ceiling_value = Ceil_num 800
   \<and> initial_load s = update_all s ''All'' ''All'' (Ceil_num 800)
   \<and> filtered (df s) global_neigh_group_value global_room_type_value global_price_ceiling_value
       = filter (\<lambda>r. price r \<le> 800) (df s)
   \<and> df (startup lib csv) = filter (\<lambda>r. 0 < price r) csv
   \<and> filtered (df (startup lib csv)) global_neigh_group_value global_room_type_value
         global_price_ceiling_value
       = filter (\<lambda>r. 0 < price r \<and> price r \<le> 800) csv"
proof -
  have v: "global_neigh_group_value = ''All''" "global_room_type_value = ''All''"
    "global_price_ceiling_value = Ceil_num 800"
    by (simp_all add: global_neigh_group_value_def global_room_type_value_def
          global_price_ceiling_value_def)
  have i: "initial_load s = update_all s ''All'' ''All'' (Ceil_num 800)"
    by (simp add: initial_load_def v)
  have f: "filtered (df s) global_neigh_group_value global_room_type_value
      global_price_ceiling_value = filter (\<lambda>r. price r \<le> 800) (df s)" for s
    unfolding v by (rule filtered_all_all)
  have l: "df (startup lib csv) = filter (\<lambda>r. 0 < price r) csv"
    by (simp add: startup_def load_df_def Let_def)
  have fl: "filtered (df (startup lib csv)) global_neigh_group_value global_room_type_value
         global_price_ceiling_value
       = filter (\<lambda>r. 0 < price r \<and> price r \<le> 800) csv"
  proof -
    have "filter (\<lambda>r. price r \<le> 800) (filter (\<lambda>r. 0 < price r) csv)
        = filter (\<lambda>r. 0 < price r \<and> price r \<le> 800) csv"
      by simp
    with f [of "startup lib csv"] l show ?thesis by simp
  qed
  from v i f l fl show ?thesis by blast
qed

theorem default_view_witness:
  "filtered (df (startup sample_pd sample_csv)) global_neigh_group_value global_room_type_value
       global_price_ceiling_value = [listing_a, listing_c]
   \<and> kpi_num_listings (fst (initial_load (startup sample_pd sample_csv))) = ''2''"
proof -
  have a: "filter (\<lambda>r. 0 < price r \<and> price r \<le> 800) sample_csv = [listing_a, listing_c]"
    by code_simp
  have b: "kpi_num_listings (fst (update_all (startup sample_pd sample_csv) ''All'' ''All'' (Ceil_num 800)))
      = ''2''"
    by code_simp
  note dv = default_view [of "startup sample_pd sample_csv" sample_pd sample_csv, unfolded a]
  from dv
  have 1: "filtered (df (startup sample_pd sample_csv)) global_neigh_group_value global_room_type_value
       global_price_ceiling_value = [listing_a, listing_c]"
    by (elim conjE)
  from dv
  have i: "initial_load (startup sample_pd sample_csv)
      = update_all (startup sample_pd sample_csv) ''All'' ''All'' (Ceil_num 800)"
    by (elim conjE)
  have 2: "kpi_num_listings (fst (initial_load (startup sample_pd sample_csv))) = ''2''"
    unfolding i by (rule b)
  from 1 2 show ?thesis by (intro conjI)
qed

lemma snd_update_all: "snd (update_all s g rt c) = s"
  by (simp add: update_all_def)

lemma snd_run_events: "snd (run_events s es) = s"
proof (induction es arbitrary: s)
  case Nil
  show ?case by simp
next
  case (Cons e es)
  obtain g rt c where e: "e = (g, rt, c)" by (cases e)
  obtain outs s2 where r: "run_events s es = (outs, s2)" by (cases "run_events s es")
  with Cons.IH [of s] have "s2 = s" by simp
  with r show ?case by (simp add: e update_all_def)
qed

lemma fst_run_events:
  "fst (run_events s es) = map (\<lambda>(g, rt, c). fst (update_all s g rt c)) es"
proof (induction es)
  case Nil
  show ?case by simp
next
  case (Cons e es)
  obtain g rt c where e: "e = (g, rt, c)" by (cases e)
  obtain outs s2 where r: "run_events s es = (outs, s2)" by (cases "run_events s es")
  with Cons.IH have "outs = map (\<lambda>(g, rt, c). fst (update_all s g rt c)) es" by simp
  with r show ?case by (simp add: e update_all_def)
qed

text \<open>
  Claim C8. \<^verbatim>\<open>update_all\<close> is deterministic and keeps no state: it leaves the globals as
  they were, so after any list of earlier events the same filter tuple gives the same six
  outputs as on the freshly loaded table, and two calls in a row with the same tuple give
  the same outputs.
\<close>

theorem update_all_stateless:
  "snd (update_all s g rt c) = s
   \<and> snd (run_events s es) = s
   \<and> fst (update_all (snd (run_events s es)) g rt c) = fst (update_all s g rt c)
   \<and> fst (update_all (snd (update_all s g rt c)) g rt c) = fst (update_all s g rt c)
   \<and> run_events s [(g, rt, c), (g, rt, c)]
       = ([fst (update_all s g rt c), fst (update_all s g rt c)], s)
   \<and> fst (run_events s (es @ [(g, rt, c)]))
       = fst (run_events s es) @ [fst (update_all s g rt c)]"
proof -
  have a: "snd (update_all s g rt c) = s" by (rule snd_update_all)
  have b: "snd (run_events s es) = s" by (rule snd_run_events)
  have c: "fst (update_all (snd (run_events s es)) g rt c) = fst (update_all s g rt c)"
    unfolding b ..
  have d: "fst (update_all (snd (update_all s g rt c)) g rt c) = fst (update_all s g rt c)"
    unfolding a ..
  have e: "run_events s [(g, rt, c), (g, rt, c)]
       = ([fst (update_all s g rt c), fst (update_all s g rt c)], s)"
    by (simp add: update_all_def)
  have f: "fst (run_events s (es @ [(g, rt, c)]))
       = fst (run_events s es) @ [fst (update_all s g rt c)]"
    by (simp add: fst_run_events)
  from a b c d e f show ?thesis by (intro conjI)
qed

theorem update_all_stateless_witness:
  "fst (update_all
          (snd (run_events (startup sample_pd sample_csv)
             [(''Queens'', ''All'', Ceil_num 200), (''Manhattan'', ''Private room'', Ceil_none)]))
          ''All'' ''All'' (Ceil_num 200))
     = fst (update_all (startup sample_pd sample_csv) ''All'' ''All'' (Ceil_num 200))
   \<and> kpi_num_listings (fst (update_all
          (snd (run_events (startup sample_pd sample_csv)
             [(''Queens'', ''All'', Ceil_num 200), (''Manhattan'', ''Private room'', Ceil_none)]))
          ''All'' ''All'' (Ceil_num 200))) = ''2''"
proof -
  note t = update_all_stateless [of "startup sample_pd sample_csv" "''All''" "''All''" "Ceil_num 200"
      "[(''Queens'', ''All'', Ceil_num 200), (''Manhattan'', ''Private room'', Ceil_none)]"]
  from t have 1: "fst (update_all
          (snd (run_events (startup sample_pd sample_csv)
             [(''Queens'', ''All'', Ceil_num 200), (''Manhattan'', ''Private room'', Ceil_none)]))
          ''All'' ''All'' (Ceil_num 200))
     = fst (update_all (startup sample_pd sample_csv) ''All'' ''All'' (Ceil_num 200))"
    by (elim conjE)
  have 2: "kpi_num_listings (fst (update_all (startup sample_pd sample_csv) ''All'' ''All'' (Ceil_num 200)))
      = ''2''"
    by code_simp
  from 1 2 show ?thesis by simp
qed

lemma set_px_groups: "set (px_groups col rows) \<subseteq> set rows"
  by (auto simp: px_groups_def)

lemma length_px_groups: "length (px_groups col rows) \<le> length rows"
  by (simp add: px_groups_def)

lemma px_groups_complete: "\<forall>r \<in> set rows. col r \<noteq> None \<Longrightarrow> px_groups col rows = rows"
  by (simp add: px_groups_def)

lemma px_groups_map: "px_groups col (map f rows) = map f (px_groups (\<lambda>r. col (f r)) rows)"
  by (simp add: px_groups_def filter_map comp_def)

lemma kpi_num_listings_nonempty:
  "filtered (df s) g rt c \<noteq> [] \<Longrightarrow>
   kpi_num_listings (fst (update_all s g rt c)) = fmt_commas (length (filtered (df s) g rt c))"
  by (simp add: fst_update_all view_of_nonempty)





lemma no_coords_fields:
  "price (no_coords r) = price r"
  "neighbourhood_group (no_coords r) = neighbourhood_group r"
  "room_type (no_coords r) = room_type r"
  "minimum_nights (no_coords r) = minimum_nights r"
  "number_of_reviews (no_coords r) = number_of_reviews r"
  by (simp_all add: no_coords_def)

lemma filtered_no_coords:
  "filtered (map no_coords d) g rt c = map no_coords (filtered d g rt c)"
  by (simp add: filtered_filter filter_map comp_def region_ok_def room_ok_def ceiling_ok_def
        no_coords_fields split: ceiling.split)

lemma hist_fig_no_coords: "hist_fig (map no_coords data) c = hist_fig data c"
  by (simp add: hist_fig_def hist_data_def filter_map px_groups_map comp_def no_coords_fields)

lemma stats_no_coords: "stats lib (map no_coords data) = stats lib data"
  by (simp add: stats_def filter_map comp_def no_coords_fields)

lemma data_violin_no_coords: "data_violin lib (map no_coords data) = data_violin lib data"
  unfolding data_violin_def stats_no_coords
  by (simp add: comp_def no_coords_fields)

lemma violin_fig_no_coords:
  "violin_fig (s\<lparr>df := d\<rparr>) (map no_coords data) = violin_fig s data"
  by (simp add: violin_fig_def data_violin_no_coords)

lemma view_of_no_coords:
  "price_hist (view_of (s\<lparr>df := map no_coords (df s)\<rparr>) g rt c) = price_hist (view_of s g rt c)"
  "price_violin (view_of (s\<lparr>df := map no_coords (df s)\<rparr>) g rt c) = price_violin (view_of s g rt c)"
  "kpi_avg_price (view_of (s\<lparr>df := map no_coords (df s)\<rparr>) g rt c) = kpi_avg_price (view_of s g rt c)"
  "kpi_num_listings (view_of (s\<lparr>df := map no_coords (df s)\<rparr>) g rt c)
     = kpi_num_listings (view_of s g rt c)"
  "kpi_avg_min_nights (view_of (s\<lparr>df := map no_coords (df s)\<rparr>) g rt c)
     = kpi_avg_min_nights (view_of s g rt c)"
  by (simp_all add: view_of_def Let_def filtered_no_coords hist_fig_no_coords
        violin_fig_no_coords comp_def no_coords_fields)

lemma same_up_to_coords:
  assumes "map no_coords d = map no_coords (df s)"
  shows "price_hist (view_of (s\<lparr>df := d\<rparr>) g rt c) = price_hist (view_of s g rt c)"
    "price_violin (view_of (s\<lparr>df := d\<rparr>) g rt c) = price_violin (view_of s g rt c)"
    "kpi_avg_price (view_of (s\<lparr>df := d\<rparr>) g rt c) = kpi_avg_price (view_of s g rt c)"
    "kpi_num_listings (view_of (s\<lparr>df := d\<rparr>) g rt c) = kpi_num_listings (view_of s g rt c)"
    "kpi_avg_min_nights (view_of (s\<lparr>df := d\<rparr>) g rt c) = kpi_avg_min_nights (view_of s g rt c)"
proof -
  let ?s1 = "s\<lparr>df := d\<rparr>"
  have e: "?s1\<lparr>df := map no_coords (df ?s1)\<rparr> = s\<lparr>df := map no_coords (df s)\<rparr>"
    using assms by simp
  show "price_hist (view_of ?s1 g rt c) = price_hist (view_of s g rt c)"
    using view_of_no_coords(1) [of ?s1 g rt c] view_of_no_coords(1) [of s g rt c]
    unfolding e by simp
  show "price_violin (view_of ?s1 g rt c) = price_violin (view_of s g rt c)"
    using view_of_no_coords(2) [of ?s1 g rt c] view_of_no_coords(2) [of s g rt c]
    unfolding e by simp
  show "kpi_avg_price (view_of ?s1 g rt c) = kpi_avg_price (view_of s g rt c)"
    using view_of_no_coords(3) [of ?s1 g rt c] view_of_no_coords(3) [of s g rt c]
    unfolding e by simp
  show "kpi_num_listings (view_of ?s1 g rt c) = kpi_num_listings (view_of s g rt c)"
    using view_of_no_coords(4) [of ?s1 g rt c] view_of_no_coords(4) [of s g rt c]
    unfolding e by simp
  show "kpi_avg_min_nights (view_of ?s1 g rt c) = kpi_avg_min_nights (view_of s g rt c)"
    using view_of_no_coords(5) [of ?s1 g rt c] view_of_no_coords(5) [of s g rt c]
    unfolding e by simp
qed

lemma map_points_map_fig:
  "map_points (map_fig data)
     = map map_point_of
         (px_groups neighbourhood_group
            (filter (\<lambda>r. latitude r \<noteq> None \<and> longitude r \<noteq> None) data))"
  by (simp add: map_points_def map_fig_def px_figure_def map_data_def)

lemma violin_points_violin_fig:
  "violin_points (violin_fig s data) = px_groups vx (data_violin (pd s) data)"
  by (simp add: violin_points_def violin_fig_def px_figure_def)

text \<open>
  Claim C6, as the specification states it: the map holds exactly the filtered rows with
  both coordinates. On the table of one listing in Manhattan and one listing without a
  region, both with coordinates, the map colours by region and has a point for the first
  listing only.
\<close>

theorem map_rows_counterexample:
  "\<not> (map_points (listing_map
          (fst (update_all (startup sample_pd sample_gap_csv) ''All'' ''All'' Ceil_none)))
        = map map_point_of
            (filter (\<lambda>r. latitude r \<noteq> None \<and> longitude r \<noteq> None)
               (filtered (df (startup sample_pd sample_gap_csv)) ''All'' ''All'' Ceil_none)))"
proof -
  have a: "length (map_points (listing_map
          (fst (update_all (startup sample_pd sample_gap_csv) ''All'' ''All'' Ceil_none)))) = 1"
    by code_simp
  have b: "length (map map_point_of
            (filter (\<lambda>r. latitude r \<noteq> None \<and> longitude r \<noteq> None)
               (filtered (df (startup sample_pd sample_gap_csv)) ''All'' ''All'' Ceil_none))) = 2"
    by code_simp
  show ?thesis
  proof
    assume "map_points (listing_map
          (fst (update_all (startup sample_pd sample_gap_csv) ''All'' ''All'' Ceil_none)))
        = map map_point_of
            (filter (\<lambda>r. latitude r \<noteq> None \<and> longitude r \<noteq> None)
               (filtered (df (startup sample_pd sample_gap_csv)) ''All'' ''All'' Ceil_none))"
    with a b show False by simp
  qed
qed

text \<open>
  Claim C6, amended. For every filter tuple with a non-empty filtered subset, the map is
  built from exactly the filtered rows that have both a latitude and a longitude. Of
  these rows it draws those that have a region, and all of them when each has a region
  or when their region column holds one value only. So every point of the map is a
  filtered row with both coordinates, and the map has at most as many points as there are
  filtered rows. Rows without coordinates are left out of the map alone: the histogram,
  the violin chart and the three headline values are computed from the filtered rows
  whatever their coordinates, and they do not change when coordinates in the table are
  changed or removed.
\<close>

theorem map_rows_have_coordinates:
  assumes "filtered (df s) g rt c \<noteq> []"
  shows
    "let data = filtered (df s) g rt c;
         out = fst (update_all s g rt c);
         located = filter (\<lambda>r. latitude r \<noteq> None \<and> longitude r \<noteq> None) data
     in map_points (listing_map out) = map map_point_of (px_groups neighbourhood_group located)
        \<and> set (map_points (listing_map out)) \<subseteq> map_point_of ` set located
        \<and> (\<forall>pt \<in> set (map_points (listing_map out)). lat pt \<noteq> None \<and> lon pt \<noteq> None)
        \<and> ((\<forall>r \<in> set located. neighbourhood_group r \<noteq> None) \<longrightarrow>
              map_points (listing_map out) = map map_point_of located)
        \<and> length (map_points (listing_map out)) \<le> length located
        \<and> length (map_points (listing_map out)) \<le> length data
        \<and> hist_points (price_hist out)
            = map (\<lambda>r. (price r, neighbourhood_group r))
                (px_groups neighbourhood_group (filter (\<lambda>r. price r \<le> base_cap c) data))
        \<and> violin_points (price_violin out) = px_groups vx (data_violin (pd s) data)
        \<and> kpi_num_listings out = fmt_commas (length data)
        \<and> (\<forall>d. map no_coords d = map no_coords (df s) \<longrightarrow>
              price_hist (fst (update_all (s\<lparr>df := d\<rparr>) g rt c)) = price_hist out
              \<and> price_violin (fst (update_all (s\<lparr>df := d\<rparr>) g rt c)) = price_violin out
              \<and> kpi_avg_price (fst (update_all (s\<lparr>df := d\<rparr>) g rt c)) = kpi_avg_price out
              \<and> kpi_num_listings (fst (update_all (s\<lparr>df := d\<rparr>) g rt c)) = kpi_num_listings out
              \<and> kpi_avg_min_nights (fst (update_all (s\<lparr>df := d\<rparr>) g rt c))
                  = kpi_avg_min_nights out)"
proof -
  let ?data = "filtered (df s) g rt c"
  let ?out = "fst (update_all s g rt c)"
  let ?located = "filter (\<lambda>r. latitude r \<noteq> None \<and> longitude r \<noteq> None) ?data"
  have m: "map_points (listing_map ?out)
      = map map_point_of (px_groups neighbourhood_group ?located)"
    by (simp only: listing_map_nonempty [OF assms] map_points_map_fig)
  have ms: "set (map_points (listing_map ?out)) \<subseteq> map_point_of ` set ?located"
    unfolding m using set_px_groups [of neighbourhood_group ?located] by auto
  have mc: "\<forall>pt \<in> set (map_points (listing_map ?out)). lat pt \<noteq> None \<and> lon pt \<noteq> None"
    using ms by (auto simp: map_point_of_def)
  have me: "(\<forall>r \<in> set ?located. neighbourhood_group r \<noteq> None) \<longrightarrow>
      map_points (listing_map ?out) = map map_point_of ?located"
  proof
    assume "\<forall>r \<in> set ?located. neighbourhood_group r \<noteq> None"
    then have "px_groups neighbourhood_group ?located = ?located"
      by (rule px_groups_complete)
    with m show "map_points (listing_map ?out) = map map_point_of ?located"
      by simp
  qed
  have ml: "length (map_points (listing_map ?out)) \<le> length ?located"
    unfolding m by (simp add: length_px_groups)
  have md: "length (map_points (listing_map ?out)) \<le> length ?data"
    using ml length_filter_le [of "\<lambda>r. latitude r \<noteq> None \<and> longitude r \<noteq> None" ?data]
    by linarith
  have h: "hist_points (price_hist ?out)
      = map (\<lambda>r. (price r, neighbourhood_group r))
          (px_groups neighbourhood_group (filter (\<lambda>r. price r \<le> base_cap c) ?data))"
    by (simp only: price_hist_nonempty [OF assms] hist_points_hist_fig)
  have v: "violin_points (price_violin ?out) = px_groups vx (data_violin (pd s) ?data)"
    by (simp only: price_violin_nonempty [OF assms] violin_points_violin_fig)
  have k: "kpi_num_listings ?out = fmt_commas (length ?data)"
    by (rule kpi_num_listings_nonempty [OF assms])
  have n: "\<forall>d. map no_coords d = map no_coords (df s) \<longrightarrow>
              price_hist (fst (update_all (s\<lparr>df := d\<rparr>) g rt c)) = price_hist ?out
              \<and> price_violin (fst (update_all (s\<lparr>df := d\<rparr>) g rt c)) = price_violin ?out
              \<and> kpi_avg_price (fst (update_all (s\<lparr>df := d\<rparr>) g rt c)) = kpi_avg_price ?out
              \<and> kpi_num_listings (fst (update_all (s\<lparr>df := d\<rparr>) g rt c)) = kpi_num_listings ?out
              \<and> kpi_avg_min_nights (fst (update_all (s\<lparr>df := d\<rparr>) g rt c))
                  = kpi_avg_min_nights ?out"
    unfolding fst_update_all
    by (intro allI impI conjI) (erule same_up_to_coords)+
  show ?thesis
    unfolding Let_def
    by (intro conjI) (rule m ms mc me ml md h v k n)+
qed

text \<open>On the table with the listing without a region: two filtered rows, both with
  coordinates, one point on the map. On the first example table every row has a region,
  one row has both coordinates, and removing every coordinate leaves the histogram and
  the count as they are.\<close>

theorem map_rows_have_coordinates_witness:
  "filtered (df (startup sample_pd sample_gap_csv)) ''All'' ''All'' Ceil_none \<noteq> []
   \<and> length (filtered (df (startup sample_pd sample_gap_csv)) ''All'' ''All'' Ceil_none) = 2
   \<and> map_points (listing_map
         (fst (update_all (startup sample_pd sample_gap_csv) ''All'' ''All'' Ceil_none)))
       = [map_point_of listing_a]
   \<and> filtered (df (startup sample_pd sample_csv)) ''All'' ''All'' Ceil_none \<noteq> []
   \<and> map_points (listing_map
         (fst (update_all (startup sample_pd sample_csv) ''All'' ''All'' Ceil_none)))
       = [map_point_of listing_a]
   \<and> map no_coords (map no_coords (df (startup sample_pd sample_csv)))
       = map no_coords (df (startup sample_pd sample_csv))
   \<and> price_hist (fst (update_all
         ((startup sample_pd sample_csv)\<lparr>df := map no_coords (df (startup sample_pd sample_csv))\<rparr>)
         ''All'' ''All'' Ceil_none))
       = price_hist (fst (update_all (startup sample_pd sample_csv) ''All'' ''All'' Ceil_none))
   \<and> kpi_num_listings (fst (update_all
         ((startup sample_pd sample_csv)\<lparr>df := map no_coords (df (startup sample_pd sample_csv))\<rparr>)
         ''All'' ''All'' Ceil_none))
       = kpi_num_listings (fst (update_all (startup sample_pd sample_csv) ''All'' ''All'' Ceil_none))"
proof -
  have hg: "filtered (df (startup sample_pd sample_gap_csv)) ''All'' ''All'' Ceil_none \<noteq> []"
    by code_simp
  have lg: "length (filtered (df (startup sample_pd sample_gap_csv)) ''All'' ''All'' Ceil_none) = 2"
    by code_simp
  have eg: "map map_point_of (px_groups neighbourhood_group
        (filter (\<lambda>r. latitude r \<noteq> None \<and> longitude r \<noteq> None)
          (filtered (df (startup sample_pd sample_gap_csv)) ''All'' ''All'' Ceil_none)))
      = [map_point_of listing_a]"
    by code_simp
  have h: "filtered (df (startup sample_pd sample_csv)) ''All'' ''All'' Ceil_none \<noteq> []"
    by code_simp
  have e: "map map_point_of (px_groups neighbourhood_group
        (filter (\<lambda>r. latitude r \<noteq> None \<and> longitude r \<noteq> None)
          (filtered (df (startup sample_pd sample_csv)) ''All'' ''All'' Ceil_none)))
      = [map_point_of listing_a]"
    by code_simp
  have i: "map no_coords (map no_coords (df (startup sample_pd sample_csv)))
       = map no_coords (df (startup sample_pd sample_csv))"
    by code_simp
  note gap = map_rows_have_coordinates [OF hg, unfolded Let_def eg]
  note facts = map_rows_have_coordinates [OF h, unfolded Let_def e]
  from gap
  have 0: "map_points (listing_map
         (fst (update_all (startup sample_pd sample_gap_csv) ''All'' ''All'' Ceil_none)))
       = [map_point_of listing_a]"
    by (rule conjunct1)
  from facts
  have 1: "map_points (listing_map
         (fst (update_all (startup sample_pd sample_csv) ''All'' ''All'' Ceil_none)))
       = [map_point_of listing_a]"
    by (rule conjunct1)
  from facts i
  have 2: "price_hist (fst (update_all
         ((startup sample_pd sample_csv)\<lparr>df := map no_coords (df (startup sample_pd sample_csv))\<rparr>)
         ''All'' ''All'' Ceil_none))
       = price_hist (fst (update_all (startup sample_pd sample_csv) ''All'' ''All'' Ceil_none))"
    by blast
  from facts i
  have 3: "kpi_num_listings (fst (update_all
         ((startup sample_pd sample_csv)\<lparr>df := map no_coords (df (startup sample_pd sample_csv))\<rparr>)
         ''All'' ''All'' Ceil_none))
       = kpi_num_listings (fst (update_all (startup sample_pd sample_csv) ''All'' ''All'' Ceil_none))"
    by blast
  from hg lg 0 h 1 i 2 3 show ?thesis by (intro conjI)
qed

end
